theory Spec2Isabelle
  imports Complex_Main
begin

section \<open>Python values, exceptions and the platform\<close>

text \<open>
  A Python \<open>str\<close> is modelled by the bytes of its UTF-8 encoding, a \<open>bytes\<close> object by its
  bytes; both are \<open>string\<close>. With this reading \<open>s.encode("utf-8")\<close> is the identity.
  A Python \<open>float\<close> is modelled by the exact rational it approximates.
\<close>

datatype pyval = PStr string | PInt int | PFloat rat

text \<open>
  The exceptions that occur; the argument is \<open>str(e)\<close>. \<open>TracerError\<close> is an error the
  tracing library raises as a Python \<open>Exception\<close>. \<open>PanicException\<close> is what its binding
  raises when the library's native code panics: it derives from \<open>BaseException\<close> and not
  from \<open>Exception\<close>, so a handler \<open>except Exception as e\<close> does not catch it.
\<close>

datatype py_exception =
    OSError string
  | TypeError string
  | KeyError string
  | TracerError string
  | PanicException string

fun str_of :: "py_exception \<Rightarrow> string" where
  "str_of (OSError m) = m"
| "str_of (TypeError m) = m"
| "str_of (KeyError m) = m"
| "str_of (TracerError m) = m"
| "str_of (PanicException m) = m"

text \<open>\<open>isinstance(e, Exception)\<close>\<close>

fun is_Exception :: "py_exception \<Rightarrow> bool" where
  "is_Exception (OSError m) = True"
| "is_Exception (TypeError m) = True"
| "is_Exception (KeyError m) = True"
| "is_Exception (TracerError m) = True"
| "is_Exception (PanicException m) = False"

text \<open>
  The file system and the platform.
  \<^item> \<open>files\<close> gives the content of every path at which there is something to read.
  \<^item> \<open>read_denied\<close> holds for the paths that \<open>open(path, "rb")\<close> refuses, and
    \<open>write_denied\<close> for those that \<open>open(path, "w")\<close> refuses.
  \<^item> \<open>special\<close> holds for the paths that name no regular file but a device such as
    \<open>/dev/null\<close>: writing there succeeds and keeps no bytes.
  \<^item> \<open>capacity\<close> is the number of bytes that can still be written at a path before the
    write fails (the disk is full), \<open>None\<close> when there is no such limit.
  \<^item> \<open>linesep\<close> is \<open>os.linesep\<close>, which a file opened in text mode writes for each
    newline.
\<close>

record filesystem =
  files :: "string \<rightharpoonup> string"
  read_denied :: "string \<Rightarrow> bool"
  write_denied :: "string \<Rightarrow> bool"
  special :: "string \<Rightarrow> bool"
  capacity :: "string \<Rightarrow> nat option"
  linesep :: string

text \<open>\<open>with open(path, "rb") as f: f.read()\<close>\<close>

definition read_bytes :: "filesystem \<Rightarrow> string \<Rightarrow> py_exception + string" where
  "read_bytes fs path =
     (if read_denied fs path then Inl (OSError ''Permission denied'')
      else case files fs path of
             None \<Rightarrow> Inl (OSError ''No such file or directory'')
           | Some content \<Rightarrow> Inr content)"

text \<open>Newline translation of a text-mode file opened with the default \<open>newline=None\<close>.\<close>

fun translate_newlines :: "string \<Rightarrow> string \<Rightarrow> string" where
  "translate_newlines sep [] = []"
| "translate_newlines sep (c # cs) =
     (if c = CHR 0x0A then sep @ translate_newlines sep cs
      else c # translate_newlines sep cs)"

text \<open>
  \<open>with open(path, "w", encoding="utf-8") as f: f.write(text)\<close>: the exception raised, if
  any, and the file system left behind. When \<open>open\<close> is refused nothing changes. Otherwise
  \<open>open\<close> empties a regular file, and the bytes are written as far as there is room: when
  they do not all fit, the file keeps those that did and \<open>OSError\<close> is raised.
\<close>

definition write_text ::
  "filesystem \<Rightarrow> string \<Rightarrow> string \<Rightarrow> py_exception option \<times> filesystem" where
  "write_text fs path text =
     (if write_denied fs path then (Some (OSError ''Permission denied''), fs)
      else if special fs path then (None, fs)
      else
        (let data = translate_newlines (linesep fs) text in
         case capacity fs path of
           None \<Rightarrow> (None, fs\<lparr>files := (files fs)(path \<mapsto> data)\<rparr>)
         | Some room \<Rightarrow>
             if length data \<le> room
             then (None, fs\<lparr>files := (files fs)(path \<mapsto> data)\<rparr>)
             else (Some (OSError ''No space left on device''),
                   fs\<lparr>files := (files fs)(path \<mapsto> take room data)\<rparr>)))"

section \<open>Path suffix and lower case\<close>

text \<open>
  \<open>Path(p).suffix\<close> as \<open>pathlib.PurePosixPath\<close> computes it: the path is split at \<open>/\<close>,
  empty components and \<open>.\<close> are dropped, the last remaining component is the name, and
  the suffix is the part of the name from its last dot on, provided that dot is neither
  the first nor the last character of the name.
\<close>

fun split_at :: "char \<Rightarrow> string \<Rightarrow> string list" where
  "split_at sep [] = [[]]"
| "split_at sep (c # cs) =
     (if c = sep then [] # split_at sep cs
      else (case split_at sep cs of
              [] \<Rightarrow> [[c]]
            | w # ws \<Rightarrow> (c # w) # ws))"

definition path_name :: "string \<Rightarrow> string" where
  "path_name p =
     (case filter (\<lambda>x. x \<noteq> [] \<and> x \<noteq> ''.'') (split_at CHR ''/'' p) of
        [] \<Rightarrow> []
      | part # parts \<Rightarrow> last (part # parts))"

fun rfind :: "char \<Rightarrow> string \<Rightarrow> nat option" where
  "rfind c [] = None"
| "rfind c (x # xs) =
     (case rfind c xs of
        Some i \<Rightarrow> Some (Suc i)
      | None \<Rightarrow> if x = c then Some 0 else None)"

definition suffix :: "string \<Rightarrow> string" where
  "suffix p =
     (let name = path_name p in
      case rfind CHR ''.'' name of
        None \<Rightarrow> []
      | Some i \<Rightarrow> if 0 < i \<and> int i < int (length name) - 1 then drop i name else [])"

text \<open>
  \<open>str.lower()\<close>. On the bytes of a UTF-8 string it maps \<open>A\<close>..\<open>Z\<close> to \<open>a\<close>..\<open>z\<close>. Python
  also lowers letters outside ASCII; none of them becomes a string of the letters that
  occur in the keys of \<open>img_format_map\<close>, so the lookup below is not affected.
\<close>

definition lower_char :: "char \<Rightarrow> char" where
  "lower_char c =
     (let n = (of_char c :: nat) in if 65 \<le> n \<and> n \<le> 90 then char_of (n + 32) else c)"

definition lower :: "string \<Rightarrow> string" where
  "lower s = map lower_char s"

section \<open>The conversion worker\<close>

text \<open>The three signals of \<open>ConversionWorker\<close>.\<close>

datatype signal = Progress int | Finished string | Error string

fun is_terminal :: "signal \<Rightarrow> bool" where
  "is_terminal (Progress n) = False"
| "is_terminal (Finished svg) = True"
| "is_terminal (Error msg) = True"

fun is_finished :: "signal \<Rightarrow> bool" where
  "is_finished (Finished svg) = True"
| "is_finished other = False"

fun is_error :: "signal \<Rightarrow> bool" where
  "is_error (Error msg) = True"
| "is_error other = False"

definition img_format_map :: "(string \<times> string) list" where
  "img_format_map =
     [(''.jpg'', ''jpg''),
      (''.jpeg'', ''jpg''),
      (''.png'', ''png''),
      (''.bmp'', ''bmp''),
      (''.gif'', ''gif''),
      (''.tiff'', ''tiff'')]"

text \<open>\<open>img_format_map.get(file_extension, "jpg")\<close>\<close>

definition get_format :: "string \<Rightarrow> string" where
  "get_format file_extension =
     (case map_of img_format_map file_extension of
        None \<Rightarrow> ''jpg''
      | Some tag \<Rightarrow> tag)"

text \<open>Lines 62 to 71 of \<open>run\<close>: the format tag of an image path.\<close>

definition img_format_of :: "string \<Rightarrow> string" where
  "img_format_of image_path = get_format (lower (suffix image_path))"

text \<open>
  The tracing library is not part of the repository and is a parameter: a function from
  the image bytes, the format tag and the keyword arguments to the markup it returns or
  the exception it raises, a \<open>PanicException\<close> included.
\<close>

type_synonym params = "(string \<times> pyval) list"

type_synonym tracer = "string \<Rightarrow> string \<Rightarrow> params \<Rightarrow> py_exception + string"

text \<open>
  The call \<open>vtracer.convert_raw_image_to_svg(image_bytes, img_format=img_format, **params)\<close>.
  Python raises \<open>TypeError\<close> before the call when \<open>params\<close> has the key \<open>img_format\<close> too.
\<close>

definition call_tracer :: "tracer \<Rightarrow> string \<Rightarrow> string \<Rightarrow> params \<Rightarrow> py_exception + string" where
  "call_tracer convert image_bytes img_format ps =
     (if ''img_format'' \<in> fst ` set ps
      then Inl (TypeError ''got multiple values for keyword argument img_format'')
      else convert image_bytes img_format ps)"

text \<open>The prefix of the error message, the UTF-8 bytes of the Japanese for "conversion error".\<close>

definition error_prefix :: string where
  "error_prefix =
     [CHR 0xE5, CHR 0xA4, CHR 0x89, CHR 0xE6, CHR 0x8F, CHR 0x9B,
      CHR 0xE3, CHR 0x82, CHR 0xA8, CHR 0xE3, CHR 0x83, CHR 0xA9,
      CHR 0xE3, CHR 0x83, CHR 0xBC, CHR '':'', CHR '' '']"

text \<open>
  The handler of \<open>run\<close>, \<open>except Exception as e: self.error.emit(...)\<close>: the signals it
  emits for an exception raised in the \<open>try\<close> block. An exception that is no \<open>Exception\<close>
  is not caught: it leaves \<open>run\<close>, the thread ends, and nothing more is emitted.
\<close>

definition except_Exception :: "py_exception \<Rightarrow> signal list" where
  "except_Exception e = (if is_Exception e then [Error (error_prefix @ str_of e)] else [])"

text \<open>
  \<open>ConversionWorker.run\<close>: the signals it emits, in order. An exception raised inside
  the \<open>try\<close> block ends the block and goes to the handler.
\<close>

definition run :: "filesystem \<Rightarrow> tracer \<Rightarrow> string \<Rightarrow> params \<Rightarrow> signal list" where
  "run fs convert image_path ps =
     Progress 10 #
     (case read_bytes fs image_path of
        Inl e \<Rightarrow> except_Exception e
      | Inr image_bytes \<Rightarrow>
          Progress 30 #
          (let img_format = img_format_of image_path in
           Progress 50 #
           (case call_tracer convert image_bytes img_format ps of
              Inl e \<Rightarrow> except_Exception e
            | Inr svg_content \<Rightarrow> [Progress 100, Finished svg_content])))"

section \<open>The widgets of the parameter panel\<close>

text \<open>
  A \<open>QSlider\<close>: Qt keeps \<open>minimum \<le> value \<le> maximum\<close> by bounding every value it is
  given. A new slider has the range 0 to 99 and the value 0.
\<close>

record qslider =
  minimum :: int
  maximum :: int
  val :: int

definition new_slider :: qslider where
  "new_slider = \<lparr>minimum = 0, maximum = 99, val = 0\<rparr>"

definition bound :: "qslider \<Rightarrow> int \<Rightarrow> int" where
  "bound s v = max (minimum s) (min (maximum s) v)"

definition setValue :: "qslider \<Rightarrow> int \<Rightarrow> qslider" where
  "setValue s v = s\<lparr>val := bound s v\<rparr>"

definition setRange :: "qslider \<Rightarrow> int \<Rightarrow> int \<Rightarrow> qslider" where
  "setRange s lo hi =
     (let s' = s\<lparr>minimum := lo, maximum := max lo hi\<rparr> in setValue s' (val s'))"

text \<open>
  A \<open>QComboBox\<close> that is not editable: its items and the index of the current one, -1 when
  there is none. Adding items to an empty box makes the first one current.
\<close>

record qcombobox =
  items :: "string list"
  currentIndex :: int

definition new_combobox :: qcombobox where
  "new_combobox = \<lparr>items = [], currentIndex = - 1\<rparr>"

definition addItems :: "qcombobox \<Rightarrow> string list \<Rightarrow> qcombobox" where
  "addItems c texts =
     c\<lparr>items := items c @ texts,
       currentIndex := (if items c = [] \<and> texts \<noteq> [] then 0 else currentIndex c)\<rparr>"

definition setCurrentIndex :: "qcombobox \<Rightarrow> int \<Rightarrow> qcombobox" where
  "setCurrentIndex c i =
     c\<lparr>currentIndex := (if 0 \<le> i \<and> i < int (length (items c)) then i else - 1)\<rparr>"

fun findText :: "string list \<Rightarrow> string \<Rightarrow> int" where
  "findText [] t = - 1"
| "findText (x # xs) t =
     (if x = t then 0 else (let i = findText xs t in if i < 0 then - 1 else i + 1))"

definition setCurrentText :: "qcombobox \<Rightarrow> string \<Rightarrow> qcombobox" where
  "setCurrentText c t =
     (let i = findText (items c) t in if i > - 1 then setCurrentIndex c i else c)"

definition currentText :: "qcombobox \<Rightarrow> string" where
  "currentText c =
     (if 0 \<le> currentIndex c \<and> currentIndex c < int (length (items c))
      then items c ! nat (currentIndex c) else [])"

section \<open>The parameter panel\<close>

text \<open>
  \<open>ParameterControlWidget\<close>: three selectors and six sliders. The labels that show the
  slider values and the layout are not read by \<open>get_parameters\<close> and are left out.
\<close>

record panel =
  color_mode :: qcombobox
  hierarchical_mode :: qcombobox
  filter_speckle :: qslider
  color_precision :: qslider
  layer_difference :: qslider
  curve_mode :: qcombobox
  corner_threshold :: qslider
  length_threshold :: qslider
  splice_threshold :: qslider

definition init_ui :: panel where
  "init_ui =
     \<lparr>color_mode = setCurrentText (addItems new_combobox [''Color'', ''B/W'']) ''Color'',
      hierarchical_mode =
        setCurrentText (addItems new_combobox [''Stacked'', ''CutOut'']) ''Stacked'',
      filter_speckle = setValue (setRange new_slider 0 128) 4,
      color_precision = setValue (setRange new_slider 1 8) 6,
      layer_difference = setValue (setRange new_slider 0 128) 16,
      curve_mode =
        setCurrentText (addItems new_combobox [''Spline'', ''Polygon'', ''Pixel'']) ''Spline'',
      corner_threshold = setValue (setRange new_slider 0 180) 60,
      length_threshold = setValue (setRange new_slider 35 100) 40,
      splice_threshold = setValue (setRange new_slider 0 180) 45\<rparr>"

text \<open>
  What the user can do to the panel: move a slider to a position (Qt bounds it), or pick
  one of the rows of a selector.
\<close>

datatype slider_id =
  FilterSpeckle | ColorPrecision | LayerDifference | CornerThreshold | LengthThreshold
  | SpliceThreshold

datatype combo_id = ColorMode | HierarchicalMode | CurveMode

datatype user_action = MoveSlider slider_id int | SelectRow combo_id nat

definition select_row :: "qcombobox \<Rightarrow> nat \<Rightarrow> qcombobox" where
  "select_row c row = (if row < length (items c) then setCurrentIndex c (int row) else c)"

fun user_step :: "panel \<Rightarrow> user_action \<Rightarrow> panel" where
  "user_step p (MoveSlider FilterSpeckle v) = p\<lparr>filter_speckle := setValue (filter_speckle p) v\<rparr>"
| "user_step p (MoveSlider ColorPrecision v) = p\<lparr>color_precision := setValue (color_precision p) v\<rparr>"
| "user_step p (MoveSlider LayerDifference v) = p\<lparr>layer_difference := setValue (layer_difference p) v\<rparr>"
| "user_step p (MoveSlider CornerThreshold v) = p\<lparr>corner_threshold := setValue (corner_threshold p) v\<rparr>"
| "user_step p (MoveSlider LengthThreshold v) = p\<lparr>length_threshold := setValue (length_threshold p) v\<rparr>"
| "user_step p (MoveSlider SpliceThreshold v) = p\<lparr>splice_threshold := setValue (splice_threshold p) v\<rparr>"
| "user_step p (SelectRow ColorMode row) = p\<lparr>color_mode := select_row (color_mode p) row\<rparr>"
| "user_step p (SelectRow HierarchicalMode row) = p\<lparr>hierarchical_mode := select_row (hierarchical_mode p) row\<rparr>"
| "user_step p (SelectRow CurveMode row) = p\<lparr>curve_mode := select_row (curve_mode p) row\<rparr>"

fun user_run :: "panel \<Rightarrow> user_action list \<Rightarrow> panel" where
  "user_run p [] = p"
| "user_run p (a # as) = user_run (user_step p a) as"

text \<open>
  \<open>get_parameters\<close>: the dictionary it returns, in the order of the literal. Subscripting
  the curve-mode table with a text that is not one of its keys raises \<open>KeyError\<close>.
\<close>

definition curve_mode_table :: "(string \<times> string) list" where
  "curve_mode_table = [(''Spline'', ''spline''), (''Polygon'', ''polygon''), (''Pixel'', ''none'')]"

definition get_parameters :: "panel \<Rightarrow> py_exception + params" where
  "get_parameters self =
     (case map_of curve_mode_table (currentText (curve_mode self)) of
        None \<Rightarrow> Inl (KeyError (currentText (curve_mode self)))
      | Some mode \<Rightarrow>
          Inr [(''colormode'',
                  PStr (if currentText (color_mode self) = ''Color'' then ''color'' else ''binary'')),
               (''hierarchical'',
                  PStr (if currentText (hierarchical_mode self) = ''Stacked''
                        then ''stacked'' else ''cutout'')),
               (''mode'', PStr mode),
               (''filter_speckle'', PInt (val (filter_speckle self))),
               (''color_precision'', PInt (val (color_precision self))),
               (''layer_difference'', PInt (val (layer_difference self))),
               (''corner_threshold'', PInt (val (corner_threshold self))),
               (''length_threshold'', PFloat (of_int (val (length_threshold self)) / 10)),
               (''max_iterations'', PInt 10),
               (''splice_threshold'', PInt (val (splice_threshold self)))])"

text \<open>\<open>get_parameters()[key]\<close>, \<open>None\<close> when either step raises.\<close>

definition snapshot_field :: "panel \<Rightarrow> string \<Rightarrow> pyval option" where
  "snapshot_field self key =
     (case get_parameters self of Inl e \<Rightarrow> None | Inr d \<Rightarrow> map_of d key)"

text \<open>
  The checks of a snapshot field against a range: an integer field, and a float field.
\<close>

definition int_in_range :: "pyval option \<Rightarrow> int \<Rightarrow> int \<Rightarrow> bool" where
  "int_in_range field lo hi =
     (case field of Some (PInt v) \<Rightarrow> lo \<le> v \<and> v \<le> hi | _ \<Rightarrow> False)"

definition float_in_range :: "pyval option \<Rightarrow> rat \<Rightarrow> rat \<Rightarrow> bool" where
  "float_in_range field lo hi =
     (case field of Some (PFloat x) \<Rightarrow> lo \<le> x \<and> x \<le> hi | _ \<Rightarrow> False)"

text \<open>The values 3.5, 4.0, 4.5, ..., 10.0: the halves of 7, 8, ..., 20.\<close>

definition half_steps :: "rat set" where
  "half_steps = (\<lambda>k. of_int k / 2) ` {7 .. 20 :: int}"

section \<open>The main window\<close>

text \<open>\<open>Path(p).stem\<close>: the name without its suffix.\<close>

definition stem :: "string \<Rightarrow> string" where
  "stem p =
     (let name = path_name p in
      case rfind CHR ''.'' name of
        None \<Rightarrow> name
      | Some i \<Rightarrow> if 0 < i \<and> int i < int (length name) - 1 then take i name else name)"

text \<open>A \<open>ConversionWorker\<close> as its constructor leaves it.\<close>

record worker =
  image_path :: string
  worker_params :: params

datatype icon = Information | Warning | Critical

text \<open>
  \<open>VTracerGUI\<close>: its three attributes, the parameter panel, and what the claims observe of
  its widgets. \<open>started\<close> lists the workers whose thread was started and
  \<open>message_boxes\<close> the modal boxes shown, oldest first. Pixmaps, layout and style sheets
  are left out.
\<close>

record gui =
  current_image_path :: "string option"
  current_svg_content :: "string option"
  conversion_worker :: "worker option"
  param_controls :: panel
  image_widget_tooltip :: string
  svg_widget :: string
  convert_button_enabled :: bool
  save_button_enabled :: bool
  progress_bar_visible :: bool
  progress_bar_value :: int
  started :: "worker list"
  message_boxes :: "(icon \<times> string \<times> string) list"

definition init_gui :: gui where
  "init_gui =
     \<lparr>current_image_path = None,
      current_svg_content = None,
      conversion_worker = None,
      param_controls = init_ui,
      image_widget_tooltip = [],
      svg_widget = [],
      convert_button_enabled = False,
      save_button_enabled = False,
      progress_bar_visible = False,
      progress_bar_value = - 1,
      started = [],
      message_boxes = []\<rparr>"

text \<open>
  \<open>load_image\<close>. \<open>set_image\<close> only changes the pixmap shown, which is not modelled.
\<close>

definition load_image :: "gui \<Rightarrow> string \<Rightarrow> gui" where
  "load_image self file_path =
     self\<lparr>current_image_path := Some file_path,
          convert_button_enabled := True,
          image_widget_tooltip := ''Selected image: '' @ path_name file_path\<rparr>"

text \<open>
  \<open>convert_image\<close>. \<open>not self.current_image_path\<close> holds for \<open>None\<close> and for the empty
  string. An exception of \<open>get_parameters\<close> is not handled and leaves the slot.
\<close>

definition convert_image :: "gui \<Rightarrow> py_exception + gui" where
  "convert_image self =
     (case current_image_path self of
        None \<Rightarrow> Inr self
      | Some path \<Rightarrow>
          if path = [] then Inr self
          else
            (let self1 = self\<lparr>convert_button_enabled := False,
                               progress_bar_visible := True,
                               progress_bar_value := 0\<rparr>
             in case get_parameters (param_controls self1) of
                  Inl e \<Rightarrow> Inl e
                | Inr ps \<Rightarrow>
                    (let w = \<lparr>image_path = path, worker_params = ps\<rparr>
                     in Inr (self1\<lparr>conversion_worker := Some w,
                                    started := started self1 @ [w]\<rparr>))))"

text \<open>
  \<open>on_conversion_finished\<close>. Encoding the markup for the preview cannot fail on a string
  that is valid UTF-8, so the warning box of the inner handler never appears.
\<close>

definition on_conversion_finished :: "gui \<Rightarrow> string \<Rightarrow> gui" where
  "on_conversion_finished self svg_content =
     self\<lparr>current_svg_content := Some svg_content,
          svg_widget := svg_content,
          convert_button_enabled := True,
          save_button_enabled := True,
          progress_bar_visible := False,
          message_boxes := message_boxes self @
            [(Information, ''Complete'', ''Image conversion completed successfully.'')]\<rparr>"

definition on_conversion_error :: "gui \<Rightarrow> string \<Rightarrow> gui" where
  "on_conversion_error self error_message =
     self\<lparr>message_boxes := message_boxes self @ [(Critical, ''Error'', error_message)],
          convert_button_enabled := True,
          progress_bar_visible := False\<rparr>"

text \<open>
  The slots that \<open>convert_image\<close> connects to the worker's signals. The progress bar has
  the range 0 to 100 and ignores a value outside it.
\<close>

fun deliver :: "gui \<Rightarrow> signal \<Rightarrow> gui" where
  "deliver self (Progress n) =
     (if n < 0 \<or> 100 < n then self else self\<lparr>progress_bar_value := n\<rparr>)"
| "deliver self (Finished svg_content) = on_conversion_finished self svg_content"
| "deliver self (Error error_message) = on_conversion_error self error_message"

fun deliver_all :: "gui \<Rightarrow> signal list \<Rightarrow> gui" where
  "deliver_all self [] = self"
| "deliver_all self (e # es) = deliver_all (deliver self e) es"

text \<open>
  \<open>save_svg\<close>. \<open>not self.current_svg_content\<close> holds for \<open>None\<close> and for the empty string.
  The save dialog is a parameter: the path the user picks when shown the default name,
  empty when the dialog is cancelled. The handler \<open>except Exception\<close> shows the error box
  for an exception of the write; whatever the write left in the file stays there.
\<close>

definition save_svg :: "(string \<Rightarrow> string) \<Rightarrow> filesystem \<Rightarrow> gui \<Rightarrow> gui \<times> filesystem" where
  "save_svg getSaveFileName fs self =
     (case current_svg_content self of
        None \<Rightarrow> (self, fs)
      | Some content \<Rightarrow>
          if content = [] then (self, fs)
          else
            (let default_name =
                   (case current_image_path self of
                      None \<Rightarrow> []
                    | Some p \<Rightarrow> if p = [] then [] else stem p @ ''.svg'');
                 file_path = getSaveFileName default_name
             in if file_path = [] then (self, fs)
                else
                  (case write_text fs file_path content of
                     (None, fs') \<Rightarrow>
                       (self\<lparr>message_boxes := message_boxes self @
                          [(Information, ''Success'',
                            ''SVG file saved successfully:'' @ [CHR 0x0A] @ file_path)]\<rparr>,
                        fs')
                   | (Some e, fs') \<Rightarrow>
                       (if is_Exception e
                        then self\<lparr>message_boxes := message_boxes self @
                               [(Critical, ''Error'',
                                 ''Failed to save file:'' @ [CHR 0x0A] @ str_of e)]\<rparr>
                        else self,
                        fs'))))"

text \<open>A POSIX file system with no files, and the same on a platform that ends lines with CR LF.\<close>

definition empty_fs :: filesystem where
  "empty_fs =
     \<lparr>files = Map.empty,
      read_denied = (\<lambda>p. False),
      write_denied = (\<lambda>p. False),
      special = (\<lambda>p. False),
      capacity = (\<lambda>p. None),
      linesep = [CHR 0x0A]\<rparr>"

definition empty_crlf_fs :: filesystem where
  "empty_crlf_fs = empty_fs\<lparr>linesep := [CHR 0x0D, CHR 0x0A]\<rparr>"

text \<open>A small payload of two lines, and a tracer that returns it for every image.\<close>

definition example_svg :: string where
  "example_svg = ''<svg>'' @ [CHR 0x0A] @ ''</svg>'' @ [CHR 0x0A]"

definition example_tracer :: tracer where
  "example_tracer image_bytes img_format ps = Inr example_svg"

text \<open>
  A file system that holds one image, and a tracer whose native code panics on every
  image it is given.
\<close>

definition panic_fs :: filesystem where
  "panic_fs = empty_fs\<lparr>files := [''panic.gif'' \<mapsto> ''GIF89a'']\<rparr>"

definition panicking_tracer :: tracer where
  "panicking_tracer image_bytes img_format ps = Inl (PanicException ''panicked'')"

section \<open>Invariants of the parameter panel\<close>

text \<open>
  A slider keeps the range it was given and a value inside it; a selector keeps its
  rows and has one of them current.
\<close>

definition slider_ok :: "qslider \<Rightarrow> int \<Rightarrow> int \<Rightarrow> bool" where
  "slider_ok s lo hi \<longleftrightarrow> minimum s = lo \<and> maximum s = hi \<and> lo \<le> val s \<and> val s \<le> hi"

definition combo_ok :: "qcombobox \<Rightarrow> string list \<Rightarrow> bool" where
  "combo_ok c texts \<longleftrightarrow>
     items c = texts \<and> 0 \<le> currentIndex c \<and> currentIndex c < int (length texts)"

definition panel_inv :: "panel \<Rightarrow> bool" where
  "panel_inv p \<longleftrightarrow>
     combo_ok (color_mode p) [''Color'', ''B/W''] \<and>
     combo_ok (hierarchical_mode p) [''Stacked'', ''CutOut''] \<and>
     combo_ok (curve_mode p) [''Spline'', ''Polygon'', ''Pixel''] \<and>
     slider_ok (filter_speckle p) 0 128 \<and>
     slider_ok (color_precision p) 1 8 \<and>
     slider_ok (layer_difference p) 0 128 \<and>
     slider_ok (corner_threshold p) 0 180 \<and>
     slider_ok (length_threshold p) 35 100 \<and>
     slider_ok (splice_threshold p) 0 180"

section \<open>Properties of the widgets and the panel\<close>

lemma setValue_ok: "slider_ok s lo hi \<Longrightarrow> slider_ok (setValue s v) lo hi"
  by (auto simp: slider_ok_def setValue_def bound_def)

lemma setRange_new_ok: "lo \<le> hi \<Longrightarrow> slider_ok (setRange new_slider lo hi) lo hi"
  by (auto simp: slider_ok_def setRange_def setValue_def bound_def new_slider_def Let_def)

lemma select_row_ok: "combo_ok c texts \<Longrightarrow> combo_ok (select_row c row) texts"
  by (auto simp: combo_ok_def select_row_def setCurrentIndex_def)

lemma new_combo_ok:
  "findText texts t = 0 \<Longrightarrow> texts \<noteq> [] \<Longrightarrow> combo_ok (setCurrentText (addItems new_combobox texts) t) texts"
  by (auto simp: combo_ok_def setCurrentText_def addItems_def new_combobox_def setCurrentIndex_def Let_def)

lemma init_ui_inv: "panel_inv init_ui"
  unfolding panel_inv_def init_ui_def
  by (simp add: setValue_ok setRange_new_ok new_combo_ok)

lemma user_step_inv: "panel_inv p \<Longrightarrow> panel_inv (user_step p a)"
proof (cases a)
  case (MoveSlider sl v)
  assume "panel_inv p"
  then show ?thesis unfolding MoveSlider
    by (cases sl) (simp_all add: panel_inv_def setValue_ok)
next
  case (SelectRow cb row)
  assume "panel_inv p"
  then show ?thesis unfolding SelectRow
    by (cases cb) (simp_all add: panel_inv_def select_row_ok)
qed

lemma user_run_inv: "panel_inv p \<Longrightarrow> panel_inv (user_run p acts)"
  by (induction acts arbitrary: p) (simp_all add: user_step_inv)

lemma reachable_inv: "panel_inv (user_run init_ui acts)"
  by (rule user_run_inv [OF init_ui_inv])

lemma combo2_text:
  "combo_ok c [a, b] \<Longrightarrow> currentText c = a \<or> currentText c = b"
proof -
  assume ok: "combo_ok c [a, b]"
  then have "currentIndex c = 0 \<or> currentIndex c = 1"
    by (auto simp: combo_ok_def)
  with ok show ?thesis
    by (auto simp: combo_ok_def currentText_def)
qed

lemma combo3_text:
  "combo_ok c [a, b, d] \<Longrightarrow> currentText c = a \<or> currentText c = b \<or> currentText c = d"
proof -
  assume ok: "combo_ok c [a, b, d]"
  then have "currentIndex c = 0 \<or> currentIndex c = 1 \<or> currentIndex c = 2"
    by (auto simp: combo_ok_def)
  with ok show ?thesis
    by (auto simp: combo_ok_def currentText_def)
qed

lemma inv_mode:
  assumes "panel_inv p"
  shows "\<exists>m. map_of curve_mode_table (currentText (curve_mode p)) = Some m"
proof -
  from assms have "combo_ok (curve_mode p) [''Spline'', ''Polygon'', ''Pixel'']"
    by (simp add: panel_inv_def)
  from combo3_text [OF this] show ?thesis
    by (auto simp: curve_mode_table_def)
qed

lemma snapshot_int_field:
  assumes "panel_inv p"
  shows "snapshot_field p ''filter_speckle'' = Some (PInt (val (filter_speckle p)))"
    and "snapshot_field p ''color_precision'' = Some (PInt (val (color_precision p)))"
    and "snapshot_field p ''layer_difference'' = Some (PInt (val (layer_difference p)))"
    and "snapshot_field p ''corner_threshold'' = Some (PInt (val (corner_threshold p)))"
    and "snapshot_field p ''splice_threshold'' = Some (PInt (val (splice_threshold p)))"
    and "snapshot_field p ''max_iterations'' = Some (PInt 10)"
    and "snapshot_field p ''length_threshold'' = Some (PFloat (of_int (val (length_threshold p)) / 10))"
  using inv_mode [OF assms]
  by (auto simp: snapshot_field_def get_parameters_def)

lemma translate_newlines_lf: "translate_newlines [CHR 0x0A] s = s"
  by (induction s) simp_all

section \<open>The conversion worker: terminal events and the format tag\<close>

text \<open>Reading a file raises nothing but \<open>OSError\<close>, which the handler catches.\<close>

lemma read_bytes_raises_Exception: "read_bytes fs path = Inl e \<Longrightarrow> is_Exception e"
  by (auto simp: read_bytes_def split: if_splits option.splits)

text \<open>
  Every path through \<open>run\<close> emits one of four signal sequences; the third is that of an
  exception of the tracer call that the handler does not catch.
\<close>

lemma run_cases:
  "(\<exists>msg. run fs convert path ps = [Progress 10, Error msg]) \<or>
   (\<exists>msg. run fs convert path ps = [Progress 10, Progress 30, Progress 50, Error msg]) \<or>
   run fs convert path ps = [Progress 10, Progress 30, Progress 50] \<or>
   (\<exists>svg. run fs convert path ps =
      [Progress 10, Progress 30, Progress 50, Progress 100, Finished svg])"
proof (cases "read_bytes fs path")
  case (Inl e)
  with read_bytes_raises_Exception [OF Inl] show ?thesis
    by (simp add: run_def except_Exception_def)
next
  case (Inr image_bytes)
  then show ?thesis
    by (simp add: run_def except_Exception_def Let_def split: sum.split)
qed

text \<open>
  As long as the tracer call returns or raises an \<open>Exception\<close>, the run emits exactly one
  terminal signal: one \<open>finished\<close> and no \<open>error\<close>, or one \<open>error\<close> and no \<open>finished\<close>.
\<close>

lemma run_one_terminal_event_when_caught:
  assumes "\<And>image_bytes e.
    call_tracer convert image_bytes (img_format_of path) ps = Inl e \<Longrightarrow> is_Exception e"
  shows "length (filter is_terminal (run fs convert path ps)) = 1 \<and>
    length (filter is_finished (run fs convert path ps)) +
    length (filter is_error (run fs convert path ps)) = 1"
proof (cases "read_bytes fs path")
  case (Inl e)
  with read_bytes_raises_Exception [OF Inl] show ?thesis
    by (simp add: run_def except_Exception_def)
next
  case (Inr image_bytes)
  show ?thesis
  proof (cases "call_tracer convert image_bytes (img_format_of path) ps")
    case (Inl e)
    with assms [OF Inl] Inr show ?thesis
      by (simp add: run_def except_Exception_def)
  next
    case svg: (Inr svg_content)
    with Inr show ?thesis
      by (simp add: run_def)
  qed
qed

text \<open>
  C1. The run does not always emit a terminal signal. When the tracer panics on the image
  read, \<open>PanicException\<close> passes the handler, which catches \<open>Exception\<close> only: the run ends
  after the progress signal 50, with neither \<open>finished\<close> nor \<open>error\<close>.
\<close>

theorem run_panic_no_terminal_event:
  "run panic_fs panicking_tracer ''panic.gif'' [] = [Progress 10, Progress 30, Progress 50] \<and>
   length (filter is_terminal (run panic_fs panicking_tracer ''panic.gif'' [])) = 0"
  by (simp add: run_def read_bytes_def panic_fs_def empty_fs_def call_tracer_def
      panicking_tracer_def except_Exception_def)

text \<open>
  C6. When the image path names no file, or one that may not be read, the run emits one
  \<open>error\<close> signal and no \<open>finished\<close> signal.
\<close>

theorem missing_file_gives_error:
  "files fs path = None \<or> read_denied fs path \<Longrightarrow>
   length (filter is_error (run fs convert path ps)) = 1 \<and>
   length (filter is_finished (run fs convert path ps)) = 0"
  by (auto simp: run_def read_bytes_def except_Exception_def)

theorem missing_file_gives_error_witness:
  "files empty_fs ''missing.png'' = None \<and>
   length (filter is_error (run empty_fs (\<lambda>b f ps. Inr ''<svg/>'') ''missing.png'' [])) = 1 \<and>
   length (filter is_finished (run empty_fs (\<lambda>b f ps. Inr ''<svg/>'') ''missing.png'' [])) = 0"
proof -
  have h: "files empty_fs ''missing.png'' = None"
    by (simp add: empty_fs_def)
  from h missing_file_gives_error [OF disjI1, OF h] show ?thesis by simp
qed

text \<open>
  C2, as the code has it. The format tag is the fixed table applied to the suffix of the
  path converted to lower case, and \<open>jpg\<close> when the lower-cased suffix is not a key of
  the table.
\<close>

theorem format_tag_of_lowered_suffix:
  "(lower (suffix p) = ''.jpg'' \<longrightarrow> img_format_of p = ''jpg'') \<and>
   (lower (suffix p) = ''.jpeg'' \<longrightarrow> img_format_of p = ''jpg'') \<and>
   (lower (suffix p) = ''.png'' \<longrightarrow> img_format_of p = ''png'') \<and>
   (lower (suffix p) = ''.bmp'' \<longrightarrow> img_format_of p = ''bmp'') \<and>
   (lower (suffix p) = ''.gif'' \<longrightarrow> img_format_of p = ''gif'') \<and>
   (lower (suffix p) = ''.tiff'' \<longrightarrow> img_format_of p = ''tiff'') \<and>
   (lower (suffix p) \<notin> {''.jpg'', ''.jpeg'', ''.png'', ''.bmp'', ''.gif'', ''.tiff''} \<longrightarrow>
      img_format_of p = ''jpg'')"
  by (simp add: img_format_of_def get_format_def img_format_map_def)

theorem format_tag_of_lowered_suffix_witness:
  "img_format_of ''a.jpg'' = ''jpg'' \<and> img_format_of ''dir/b.JPEG'' = ''jpg'' \<and>
   img_format_of ''photo.PNG'' = ''png'' \<and> img_format_of ''/tmp/c.Bmp'' = ''bmp'' \<and>
   img_format_of ''d.gif'' = ''gif'' \<and> img_format_of ''e.tiff'' = ''tiff'' \<and>
   img_format_of ''f.webp'' = ''jpg''"
proof -
  have "lower (suffix ''a.jpg'') = ''.jpg''" "lower (suffix ''dir/b.JPEG'') = ''.jpeg''"
    "lower (suffix ''photo.PNG'') = ''.png''" "lower (suffix ''/tmp/c.Bmp'') = ''.bmp''"
    "lower (suffix ''d.gif'') = ''.gif''" "lower (suffix ''e.tiff'') = ''.tiff''"
    "lower (suffix ''f.webp'') = ''.webp''"
    by code_simp+
  then show ?thesis
    using format_tag_of_lowered_suffix [of "''a.jpg''"]
      format_tag_of_lowered_suffix [of "''dir/b.JPEG''"]
      format_tag_of_lowered_suffix [of "''photo.PNG''"]
      format_tag_of_lowered_suffix [of "''/tmp/c.Bmp''"]
      format_tag_of_lowered_suffix [of "''d.gif''"]
      format_tag_of_lowered_suffix [of "''e.tiff''"]
      format_tag_of_lowered_suffix [of "''f.webp''"]
    by simp
qed

text \<open>
  C2 as stated does not hold: the suffix \<open>.PNG\<close> is not a key of the table, and the tag
  is \<open>png\<close>, not the default.
\<close>

theorem upper_case_suffix_counterexample:
  "suffix ''photo.PNG'' \<notin> {''.jpg'', ''.jpeg'', ''.png'', ''.bmp'', ''.gif'', ''.tiff''} \<and>
   img_format_of ''photo.PNG'' \<noteq> ''jpg''"
  by code_simp

section \<open>The parameter snapshot\<close>

text \<open>
  C3. After any sequence of user actions on the panel, \<open>get_parameters\<close> returns a
  dictionary whose numeric fields are within their bounds: \<open>filter_speckle\<close> in 0..128,
  \<open>color_precision\<close> in 1..8, \<open>layer_difference\<close> in 0..128, \<open>corner_threshold\<close> in
  0..180, \<open>length_threshold\<close> in 3.5..10.0, \<open>splice_threshold\<close> in 0..180, and
  \<open>max_iterations\<close> is 10.
\<close>

theorem snapshot_within_bounds:
  "int_in_range (snapshot_field (user_run init_ui acts) ''filter_speckle'') 0 128 \<and>
   int_in_range (snapshot_field (user_run init_ui acts) ''color_precision'') 1 8 \<and>
   int_in_range (snapshot_field (user_run init_ui acts) ''layer_difference'') 0 128 \<and>
   int_in_range (snapshot_field (user_run init_ui acts) ''corner_threshold'') 0 180 \<and>
   float_in_range (snapshot_field (user_run init_ui acts) ''length_threshold'') (7 / 2) 10 \<and>
   int_in_range (snapshot_field (user_run init_ui acts) ''splice_threshold'') 0 180 \<and>
   snapshot_field (user_run init_ui acts) ''max_iterations'' = Some (PInt 10)"
proof -
  let ?p = "user_run init_ui acts"
  have inv: "panel_inv ?p" by (rule reachable_inv)
  note f = snapshot_int_field [OF inv]
  from inv have
    "slider_ok (filter_speckle ?p) 0 128" "slider_ok (color_precision ?p) 1 8"
    "slider_ok (layer_difference ?p) 0 128" "slider_ok (corner_threshold ?p) 0 180"
    "slider_ok (length_threshold ?p) 35 100" "slider_ok (splice_threshold ?p) 0 180"
    by (simp_all add: panel_inv_def)
  then show ?thesis
    by (simp add: f int_in_range_def float_in_range_def slider_ok_def)
qed

text \<open>
  C4. The segment-length slider runs over the integers 35 to 100 and the snapshot
  divides its value by 10, so the result is not confined to steps of 0.5: at slider
  position 36 the snapshot holds 3.6.
\<close>

theorem segment_length_off_grid:
  "snapshot_field (user_run init_ui [MoveSlider LengthThreshold 36]) ''length_threshold'' =
     Some (PFloat (18 / 5)) \<and>
   (18 / 5 :: rat) \<notin> half_steps"
proof
  show "snapshot_field (user_run init_ui [MoveSlider LengthThreshold 36]) ''length_threshold'' =
     Some (PFloat (18 / 5))"
    by code_simp
next
  have "of_int k / 2 \<noteq> (18 / 5 :: rat)" for k :: int
  proof
    assume "of_int k / 2 = (18 / 5 :: rat)"
    then have "(of_int (5 * k) :: rat) = of_int 36" by simp
    then have "5 * k = 36" by (simp only: of_int_eq_iff)
    then show False by presburger
  qed
  then show "(18 / 5 :: rat) \<notin> half_steps"
    by (auto simp: half_steps_def)
qed

lemma snapshot_mode_fields:
  assumes "panel_inv p"
  shows "snapshot_field p ''colormode'' =
           Some (PStr (if currentText (color_mode p) = ''Color'' then ''color'' else ''binary''))"
    and "snapshot_field p ''hierarchical'' =
           Some (PStr (if currentText (hierarchical_mode p) = ''Stacked''
                       then ''stacked'' else ''cutout''))"
    and "map_option PStr (map_of curve_mode_table (currentText (curve_mode p))) =
           snapshot_field p ''mode''"
  using inv_mode [OF assms]
  by (auto simp: snapshot_field_def get_parameters_def)

text \<open>
  C5, as the code has it. After any sequence of user actions the snapshot holds
  \<open>color\<close> or \<open>binary\<close> for the colour mode (\<open>Color\<close> or \<open>B/W\<close> selected), \<open>stacked\<close> or
  \<open>cutout\<close> for the hierarchical mode, and for the curve mode \<open>spline\<close>, \<open>polygon\<close> or
  \<open>none\<close>, the last when \<open>Pixel\<close> is selected.
\<close>

theorem snapshot_modes:
  "(currentText (color_mode (user_run init_ui acts)) = ''Color'' \<and>
      snapshot_field (user_run init_ui acts) ''colormode'' = Some (PStr ''color'') \<or>
    currentText (color_mode (user_run init_ui acts)) = ''B/W'' \<and>
      snapshot_field (user_run init_ui acts) ''colormode'' = Some (PStr ''binary'')) \<and>
   (currentText (hierarchical_mode (user_run init_ui acts)) = ''Stacked'' \<and>
      snapshot_field (user_run init_ui acts) ''hierarchical'' = Some (PStr ''stacked'') \<or>
    currentText (hierarchical_mode (user_run init_ui acts)) = ''CutOut'' \<and>
      snapshot_field (user_run init_ui acts) ''hierarchical'' = Some (PStr ''cutout'')) \<and>
   (currentText (curve_mode (user_run init_ui acts)) = ''Spline'' \<and>
      snapshot_field (user_run init_ui acts) ''mode'' = Some (PStr ''spline'') \<or>
    currentText (curve_mode (user_run init_ui acts)) = ''Polygon'' \<and>
      snapshot_field (user_run init_ui acts) ''mode'' = Some (PStr ''polygon'') \<or>
    currentText (curve_mode (user_run init_ui acts)) = ''Pixel'' \<and>
      snapshot_field (user_run init_ui acts) ''mode'' = Some (PStr ''none''))"
proof -
  let ?p = "user_run init_ui acts"
  have inv: "panel_inv ?p" by (rule reachable_inv)
  note f = snapshot_mode_fields [OF inv, symmetric]
  from inv have c: "combo_ok (color_mode ?p) [''Color'', ''B/W'']"
    and h: "combo_ok (hierarchical_mode ?p) [''Stacked'', ''CutOut'']"
    and m: "combo_ok (curve_mode ?p) [''Spline'', ''Polygon'', ''Pixel'']"
    by (simp_all add: panel_inv_def)
  have 1: "currentText (color_mode ?p) = ''Color'' \<and>
      snapshot_field ?p ''colormode'' = Some (PStr ''color'') \<or>
    currentText (color_mode ?p) = ''B/W'' \<and>
      snapshot_field ?p ''colormode'' = Some (PStr ''binary'')"
    using combo2_text [OF c] snapshot_mode_fields(1) [OF inv] by auto
  have 2: "currentText (hierarchical_mode ?p) = ''Stacked'' \<and>
      snapshot_field ?p ''hierarchical'' = Some (PStr ''stacked'') \<or>
    currentText (hierarchical_mode ?p) = ''CutOut'' \<and>
      snapshot_field ?p ''hierarchical'' = Some (PStr ''cutout'')"
    using combo2_text [OF h] snapshot_mode_fields(2) [OF inv] by auto
  have 3: "currentText (curve_mode ?p) = ''Spline'' \<and>
      snapshot_field ?p ''mode'' = Some (PStr ''spline'') \<or>
    currentText (curve_mode ?p) = ''Polygon'' \<and>
      snapshot_field ?p ''mode'' = Some (PStr ''polygon'') \<or>
    currentText (curve_mode ?p) = ''Pixel'' \<and>
      snapshot_field ?p ''mode'' = Some (PStr ''none'')"
    using combo3_text [OF m] snapshot_mode_fields(3) [OF inv]
    by (auto simp: curve_mode_table_def)
  from 1 2 3 show ?thesis by (rule conjI [OF _ conjI])
qed

text \<open>
  C5 as stated does not hold: with \<open>Pixel\<close> selected the snapshot's curve mode is
  \<open>none\<close>, not \<open>pixel\<close>.
\<close>

theorem pixel_mode_counterexample:
  "currentText (curve_mode (user_run init_ui [SelectRow CurveMode 2])) = ''Pixel'' \<and>
   snapshot_field (user_run init_ui [SelectRow CurveMode 2]) ''mode'' = Some (PStr ''none'') \<and>
   snapshot_field (user_run init_ui [SelectRow CurveMode 2]) ''mode'' \<noteq> Some (PStr ''pixel'')"
  by code_simp

section \<open>The main window: converting and saving\<close>

text \<open>
  C7. With no conversion result held, \<open>save_svg\<close> returns at once: the window and the
  file system are as before, whatever the save dialog would have answered.
\<close>

theorem save_without_result_is_noop:
  "current_svg_content self = None \<Longrightarrow> save_svg getSaveFileName fs self = (self, fs)"
  by (simp add: save_svg_def)

theorem save_without_result_is_noop_witness:
  "current_svg_content init_gui = None \<and>
   save_svg (\<lambda>default_name. ''out.svg'') empty_fs init_gui = (init_gui, empty_fs)"
proof -
  have h: "current_svg_content init_gui = None"
    by (simp add: init_gui_def)
  from h save_without_result_is_noop [OF h] show ?thesis by simp
qed

text \<open>
  C9. With no image loaded, \<open>convert_image\<close> returns at once and the window is as
  before: no worker is created or started, and the convert button and the progress bar
  are untouched.
\<close>

theorem convert_without_image_is_noop:
  "current_image_path self = None \<Longrightarrow> convert_image self = Inr self"
  by (simp add: convert_image_def)

theorem convert_without_image_is_noop_witness:
  "current_image_path init_gui = None \<and> convert_image init_gui = Inr init_gui"
proof -
  have h: "current_image_path init_gui = None"
    by (simp add: init_gui_def)
  from h convert_without_image_is_noop [OF h] show ?thesis by simp
qed

text \<open>Starting a conversion and every signal but \<open>finished\<close> leave the held result alone.\<close>

lemma convert_image_keeps_result:
  "convert_image self = Inr self' \<Longrightarrow>
   current_svg_content self' = current_svg_content self \<and>
   save_button_enabled self' = save_button_enabled self"
  by (auto simp: convert_image_def Let_def split: option.splits if_splits sum.splits)

lemma deliver_keeps_result:
  "\<not> is_finished e \<Longrightarrow>
   current_svg_content (deliver self e) = current_svg_content self \<and>
   save_button_enabled (deliver self e) = save_button_enabled self"
  by (cases e) (simp_all add: on_conversion_error_def)

lemma deliver_all_keeps_result:
  "filter is_finished es = [] \<Longrightarrow>
   current_svg_content (deliver_all self es) = current_svg_content self \<and>
   save_button_enabled (deliver_all self es) = save_button_enabled self"
proof (induction es arbitrary: self)
  case Nil
  then show ?case by simp
next
  case (Cons e es)
  then have e: "\<not> is_finished e" and es: "filter is_finished es = []"
    by (simp_all split: if_splits)
  show ?case
    using Cons.IH [OF es, of "deliver self e"] deliver_keeps_result [OF e, of self]
    by simp
qed

text \<open>
  C10. \<open>on_conversion_error\<close> changes neither the held result nor whether the save
  button is enabled. So after a successful conversion, a further \<open>convert_image\<close>
  followed by any signals without \<open>finished\<close> leaves that result held and the save
  button enabled.
\<close>

theorem error_keeps_result:
  "current_svg_content (on_conversion_error self msg) = current_svg_content self \<and>
   save_button_enabled (on_conversion_error self msg) = save_button_enabled self \<and>
   (convert_image (on_conversion_finished self svg) = Inr self' \<and>
    filter is_finished sigs = [] \<longrightarrow>
      current_svg_content (deliver_all self' sigs) = Some svg \<and>
      save_button_enabled (deliver_all self' sigs))"
proof -
  have "current_svg_content (deliver_all self' sigs) = Some svg \<and>
        save_button_enabled (deliver_all self' sigs)"
    if c: "convert_image (on_conversion_finished self svg) = Inr self'"
      and s: "filter is_finished sigs = []"
    using convert_image_keeps_result [OF c] deliver_all_keeps_result [OF s, of self']
    by (simp add: on_conversion_finished_def)
  then show ?thesis
    by (simp add: on_conversion_error_def)
qed

theorem error_keeps_result_witness:
  "current_svg_content
     (deliver_all
        (projr (convert_image (on_conversion_finished (load_image init_gui ''a.png'') example_svg)))
        (run empty_fs example_tracer ''a.png'' [])) = Some example_svg \<and>
   save_button_enabled
     (deliver_all
        (projr (convert_image (on_conversion_finished (load_image init_gui ''a.png'') example_svg)))
        (run empty_fs example_tracer ''a.png'' []))"
proof -
  let ?s = "on_conversion_finished (load_image init_gui ''a.png'') example_svg"
  have "panel_inv (param_controls ?s)"
    by (simp add: on_conversion_finished_def load_image_def init_gui_def init_ui_inv)
  from inv_mode [OF this] have c: "convert_image ?s = Inr (projr (convert_image ?s))"
    by (auto simp: convert_image_def get_parameters_def Let_def
        on_conversion_finished_def load_image_def)
  have s: "filter is_finished (run empty_fs example_tracer ''a.png'' []) = []"
    by (simp add: run_def read_bytes_def empty_fs_def except_Exception_def)
  from c s error_keeps_result [of "load_image init_gui ''a.png''" _ example_svg
      "projr (convert_image ?s)" "run empty_fs example_tracer ''a.png'' []"]
  show ?thesis by blast
qed

text \<open>
  C8, as the code has it. When the payload is not empty, the path the user picks is not
  empty and names a regular file that may be read, the write raises no error, and the
  platform's line separator is the newline character, the file read back holds exactly
  the payload.
\<close>

theorem save_round_trip:
  "svg \<noteq> [] \<Longrightarrow> file_path \<noteq> [] \<Longrightarrow> \<not> special fs file_path \<Longrightarrow>
   \<not> read_denied fs file_path \<Longrightarrow> fst (write_text fs file_path svg) = None \<Longrightarrow>
   linesep fs = [CHR 0x0A] \<Longrightarrow>
   read_bytes (snd (save_svg (\<lambda>default_name. file_path) fs (on_conversion_finished self svg)))
     file_path = Inr svg"
  by (auto simp: save_svg_def on_conversion_finished_def write_text_def read_bytes_def
      translate_newlines_lf Let_def split: if_splits option.splits)

theorem save_round_trip_witness:
  "example_svg \<noteq> [] \<and> ''out.svg'' \<noteq> [] \<and> \<not> special empty_fs ''out.svg'' \<and>
   \<not> read_denied empty_fs ''out.svg'' \<and> fst (write_text empty_fs ''out.svg'' example_svg) = None \<and>
   linesep empty_fs = [CHR 0x0A] \<and>
   read_bytes (snd (save_svg (\<lambda>default_name. ''out.svg'') empty_fs
      (on_conversion_finished init_gui example_svg))) ''out.svg'' = Inr example_svg"
proof -
  have h: "example_svg \<noteq> []" "''out.svg'' \<noteq> []" "\<not> special empty_fs ''out.svg''"
    "\<not> read_denied empty_fs ''out.svg''" "fst (write_text empty_fs ''out.svg'' example_svg) = None"
    "linesep empty_fs = [CHR 0x0A]"
    by (simp_all add: example_svg_def empty_fs_def write_text_def)
  from h save_round_trip [OF h, of init_gui] show ?thesis by simp
qed

text \<open>
  C8 as stated does not hold. An empty payload is not saved at all, so there is no file
  to read back; and where the line separator is CR LF, the file holds CR LF for each
  newline of the payload.
\<close>

theorem save_round_trip_counterexample:
  "read_bytes (snd (save_svg (\<lambda>default_name. ''out.svg'') empty_fs
      (on_conversion_finished init_gui []))) ''out.svg'' \<noteq> Inr [] \<and>
   read_bytes (snd (save_svg (\<lambda>default_name. ''out.svg'') empty_crlf_fs
      (on_conversion_finished init_gui example_svg))) ''out.svg'' \<noteq> Inr example_svg"
  by (simp add: save_svg_def on_conversion_finished_def write_text_def read_bytes_def
      empty_fs_def empty_crlf_fs_def init_gui_def example_svg_def Let_def)

end
